theory Spec2Isabelle
  imports Complex_Main "HOL-Library.Stream"
begin

section \<open>Numbers, vectors and errors\<close>

text \<open>
  JavaScript numbers are modelled as \<^typ>\<open>real\<close>: the arithmetic of the source is read
  exactly, without the rounding of IEEE doubles or of the 32-bit buffers of the
  rendering library. A value that JavaScript leaves \<^verbatim>\<open>undefined\<close> is \<open>None\<close>, and
  reading a property of \<^verbatim>\<open>undefined\<close> is the error \<open>TypeError\<close>.
\<close>

type_synonym vec2 = "real \<times> real"
type_synonym vec3 = "real \<times> real \<times> real"

datatype error = TypeError

definition vadd :: "vec3 \<Rightarrow> vec3 \<Rightarrow> vec3" where
  "vadd a b = (case a of (ax, ay, az) \<Rightarrow> case b of (bx, by, bz) \<Rightarrow> (ax + bx, ay + by, az + bz))"

definition vdiv :: "vec3 \<Rightarrow> real \<Rightarrow> vec3" where
  "vdiv a d = (case a of (ax, ay, az) \<Rightarrow> (ax / d, ay / d, az / d))"

text \<open>The sum of a list of vectors, for stating means.\<close>

primrec vsum :: "vec3 list \<Rightarrow> vec3" where
  "vsum [] = (0, 0, 0)"
| "vsum (v # vs) = vadd v (vsum vs)"

section \<open>Ring triangulator: \<^verbatim>\<open>landmarksToMesh\<close>\<close>

record NormalizedLandmark =
  lm_x :: real
  lm_y :: real
  lm_z :: real

text \<open>
  A landmark list as the caller builds it: \<^verbatim>\<open>mouthLandmarks.push(results.faceLandmarks[0][index])\<close>
  pushes \<^verbatim>\<open>undefined\<close> for an index the detector did not deliver, so an entry is optional.
  \<open>entry\<close> is JavaScript's array read: \<^verbatim>\<open>undefined\<close> out of range.
\<close>

type_synonym landmarks = "NormalizedLandmark option list"

definition entry :: "landmarks \<Rightarrow> nat \<Rightarrow> NormalizedLandmark option" where
  "entry ls i = (if i < length ls then ls ! i else None)"

definition MOUTH_INDICES_SORTED :: "nat list" where
  "MOUTH_INDICES_SORTED = [15, 16, 14, 17, 13, 18, 12, 19, 11, 0, 10, 1, 9, 2, 8, 3, 7, 4, 6, 5]"

text \<open>\<^verbatim>\<open>[landmarksCopy[i].x * 2, landmarksCopy[i].y * 2, landmarksCopy[i].z * 2]\<close>\<close>

definition scaled :: "NormalizedLandmark \<Rightarrow> vec3" where
  "scaled p = (lm_x p * 2, lm_y p * 2, lm_z p * 2)"

text \<open>\<^verbatim>\<open>[landmarksCopy[i].x, landmarksCopy[i].y]\<close>\<close>

definition uvOf :: "NormalizedLandmark \<Rightarrow> vec2" where
  "uvOf p = (lm_x p, lm_y p)"

text \<open>
  The loop \<^verbatim>\<open>for(let i = 0; i < MOUTH_INDICES_SORTED.length-2; i++)\<close> of
  \<^verbatim>\<open>landmarksToMesh\<close>, as a recursion on the counter \<open>i\<close>. The accumulator is
  \<^verbatim>\<open>(vertices, uvs, sum)\<close>. The ring is the module constant \<^verbatim>\<open>MOUTH_INDICES_SORTED\<close> in
  the source; it is an argument here, so that a property can be stated for every ring.
  Reading \<^verbatim>\<open>.x\<close> of a missing landmark throws.
\<close>

function setupVertices ::
  "nat list \<Rightarrow> landmarks \<Rightarrow> nat \<Rightarrow> vec3 list \<times> vec2 list \<times> vec3 \<Rightarrow>
   error + (vec3 list \<times> vec2 list \<times> vec3)" where
  "setupVertices ring ls i acc =
     (if int i < int (length ring) - 2 then
        (case (entry ls (ring ! i), entry ls (ring ! (i + 1)), entry ls (ring ! (i + 2))) of
           (Some p1, Some p2, Some p3) \<Rightarrow>
             (case acc of (vertices, uvs, sum0) \<Rightarrow>
                let vertices' = vertices @ [scaled p1, scaled p2, scaled p3];
                    uvs' = uvs @ [uvOf p1, uvOf p2, uvOf p3];
                    sum1 = (if i = 0 then vadd sum0 (scaled p1) else sum0);
                    sum2 = (if int i = int (length ring) - 3 then vadd sum1 (scaled p3) else sum1);
                    sum3 = vadd sum2 (scaled p2)
                in setupVertices ring ls (i + 1) (vertices', uvs', sum3))
         | _ \<Rightarrow> Inl TypeError)
      else Inr acc)"
  by pat_completeness auto
termination
  by (relation "measure (\<lambda>(ring, ls, i, acc). length ring - i)") auto

declare setupVertices.simps [simp del]

text \<open>\<^verbatim>\<open>vertices.flat()\<close> and \<^verbatim>\<open>uvs.flat()\<close>\<close>

definition flat3 :: "vec3 list \<Rightarrow> real list" where
  "flat3 vs = concat (map (\<lambda>(a, b, c). [a, b, c]) vs)"

definition flat2 :: "vec2 list \<Rightarrow> real list" where
  "flat2 vs = concat (map (\<lambda>(a, b). [a, b]) vs)"

text \<open>
  The mesh that \<^verbatim>\<open>landmarksToMesh\<close> returns: the two buffer attributes of its geometry
  (flat arrays, three numbers a vertex and two a UV) and its position in the parent scene.
\<close>

record Mesh =
  geometry_position :: "real list"
  geometry_uv :: "real list"
  position :: vec3

text \<open>
  \<^verbatim>\<open>landmarksToMesh\<close>. \<open>Inr None\<close> is the \<^verbatim>\<open>undefined\<close> of the early return, \<open>Inl\<close> a thrown
  error (the rejection of the promise). \<^verbatim>\<open>geometry.center()\<close> belongs to the rendering
  library; it is the argument \<open>center\<close>, a function on the flat position array, so that
  what does not depend on it is stated for every such function; \<open>geometryCenter\<close> below is
  the library's. \<open>DRAW_NUMBERS\<close> is the switch \<^verbatim>\<open>CONFIGS.DRAW_NUMBERS\<close>: when it is on, the
  code reads \<^verbatim>\<open>landmark.x\<close> of every entry of the list to place a label, and throws on a
  missing one. The labels and the material touch the scene only and are left out.
\<close>

definition landmarksToMesh ::
  "(real list \<Rightarrow> real list) \<Rightarrow> bool \<Rightarrow> nat list \<Rightarrow> landmarks \<Rightarrow> error + Mesh option" where
  "landmarksToMesh center DRAW_NUMBERS ring ls =
     (if ls = [] then Inr None
      else case setupVertices ring ls 0 ([], [], (0, 0, 0)) of
             Inl e \<Rightarrow> Inl e
           | Inr (vertices, uvs, sum3) \<Rightarrow>
               let averagePoint = vdiv sum3 (real (length ring))
               in if DRAW_NUMBERS \<and> None \<in> set ls then Inl TypeError
                  else Inr (Some \<lparr>geometry_position = center (flat3 vertices),
                                   geometry_uv = flat2 uvs,
                                   position = averagePoint\<rparr>))"

text \<open>
  A geometry without an index is drawn as one triangle for every three consecutive
  vertices; \<open>triangles\<close> groups a vertex list (or the parallel UV list) that way.
\<close>

fun triangles :: "'a list \<Rightarrow> ('a \<times> 'a \<times> 'a) list" where
  "triangles (a # b # c # vs) = (a, b, c) # triangles vs"
| "triangles vs = []"

text \<open>
  \<^verbatim>\<open>geometry.center()\<close> as the rendering library documents it: it computes the bounding
  box of the position attribute (the box is empty when there is no vertex, the first vertex
  makes it a point, every further vertex expands it), takes the centre of the box,
  \<open>(min + max) / 2\<close>, or \<open>(0, 0, 0)\<close> for the empty box, and translates every vertex by
  the negated centre. The attribute has \<open>length div 3\<close> vertices; numbers left over at the
  end are not touched.
\<close>

fun computeBoundingBox :: "real list \<Rightarrow> (vec3 \<times> vec3) option \<Rightarrow> (vec3 \<times> vec3) option" where
  "computeBoundingBox (vx # vy # vz # vertices) None =
     computeBoundingBox vertices (Some ((vx, vy, vz), (vx, vy, vz)))"
| "computeBoundingBox (vx # vy # vz # vertices) (Some ((minX, minY, minZ), (maxX, maxY, maxZ))) =
     computeBoundingBox vertices
       (Some ((min minX vx, min minY vy, min minZ vz), (max maxX vx, max maxY vy, max maxZ vz)))"
| "computeBoundingBox vertices box = box"

definition getCenter :: "(vec3 \<times> vec3) option \<Rightarrow> vec3" where
  "getCenter box =
     (case box of
        None \<Rightarrow> (0, 0, 0)
      | Some ((minX, minY, minZ), (maxX, maxY, maxZ)) \<Rightarrow>
          ((minX + maxX) * 0.5, (minY + maxY) * 0.5, (minZ + maxZ) * 0.5))"

fun translate :: "vec3 \<Rightarrow> real list \<Rightarrow> real list" where
  "translate (tx, ty, tz) (vx # vy # vz # vertices) =
     (vx + tx) # (vy + ty) # (vz + tz) # translate (tx, ty, tz) vertices"
| "translate t vertices = vertices"

definition geometryCenter :: "real list \<Rightarrow> real list" where
  "geometryCenter vertices =
     (case getCenter (computeBoundingBox vertices None) of
        (cx, cy, cz) \<Rightarrow> translate (- cx, - cy, - cz) vertices)"

text \<open>
  Recentring as the spec words it, to compare: the vertices are moved so that the given
  centroid becomes the local origin.
\<close>

definition spec_recentre :: "vec3 \<Rightarrow> real list \<Rightarrow> real list" where
  "spec_recentre centroid vertices =
     (case centroid of (cx, cy, cz) \<Rightarrow> translate (- cx, - cy, - cz) vertices)"

section \<open>Surface deformer: the curvature block of \<^verbatim>\<open>predictWebcam\<close>\<close>

text \<open>
  The loop \<^verbatim>\<open>for(let i = 0; i < vertices.length; i+=3)\<close> over the flat position array:
  it reads \<^verbatim>\<open>vertices[i], vertices[i+1], vertices[i+2]\<close> and writes \<^verbatim>\<open>vertices[i+1]\<close> only,
  so a recursion in steps of three is the same loop. \<open>originX\<close> is \<^verbatim>\<open>mesh.position.x\<close>.
  An array whose length is not a multiple of three ends in one or two numbers: with two
  the write still lands on the second, with one it falls outside the typed array and is
  dropped. The debug line added to the scene for each vertex is not part of the mesh and
  is left out.
\<close>

fun deform :: "real \<Rightarrow> real \<Rightarrow> real list \<Rightarrow> real list" where
  "deform curvature originX (vx # vy # vz # vertices) =
     vx # (vy + sin (\<bar>vx - originX\<bar> * curvature) * 0.1) # vz # deform curvature originX vertices"
| "deform curvature originX [vx, vy] = [vx, vy + sin (\<bar>vx - originX\<bar> * curvature) * 0.1]"
| "deform curvature originX vertices = vertices"


section \<open>Transform retargeter: \<^verbatim>\<open>detectFaceLandmarks\<close> and \<^verbatim>\<open>PinnedObject.applyMatrix\<close>\<close>

text \<open>
  The 4 by 4 matrix of the rendering library, as the library documents it: sixteen
  elements in column-major order, so the arguments of the constructor below are
  \<open>n11 n21 n31 n41 n12 \<dots> n44\<close> (\<open>nrc\<close> is row \<open>r\<close>, column \<open>c\<close>).
  \<^verbatim>\<open>fromArray\<close> copies the elements in that order, \<^verbatim>\<open>makeTranslation\<close> is the identity
  with the translation in the last column, \<^verbatim>\<open>a.multiply(b)\<close> is the matrix product
  \<open>a \<times> b\<close>, and \<^verbatim>\<open>m.scale(v)\<close> multiplies the first three columns of \<open>m\<close> by the
  components of \<open>v\<close>.
\<close>

datatype Matrix4 =
  Matrix4 real real real real  real real real real  real real real real  real real real real

definition fromArray :: "real list \<Rightarrow> Matrix4" where
  "fromArray a = Matrix4 (a ! 0) (a ! 1) (a ! 2) (a ! 3) (a ! 4) (a ! 5) (a ! 6) (a ! 7)
                         (a ! 8) (a ! 9) (a ! 10) (a ! 11) (a ! 12) (a ! 13) (a ! 14) (a ! 15)"

definition makeTranslation :: "real \<Rightarrow> real \<Rightarrow> real \<Rightarrow> Matrix4" where
  "makeTranslation tx ty tz = Matrix4 1 0 0 0  0 1 0 0  0 0 1 0  tx ty tz 1"

fun multiply :: "Matrix4 \<Rightarrow> Matrix4 \<Rightarrow> Matrix4" where
  "multiply (Matrix4 a11 a21 a31 a41 a12 a22 a32 a42 a13 a23 a33 a43 a14 a24 a34 a44)
            (Matrix4 b11 b21 b31 b41 b12 b22 b32 b42 b13 b23 b33 b43 b14 b24 b34 b44) =
     Matrix4
       (a11 * b11 + a12 * b21 + a13 * b31 + a14 * b41)
       (a21 * b11 + a22 * b21 + a23 * b31 + a24 * b41)
       (a31 * b11 + a32 * b21 + a33 * b31 + a34 * b41)
       (a41 * b11 + a42 * b21 + a43 * b31 + a44 * b41)
       (a11 * b12 + a12 * b22 + a13 * b32 + a14 * b42)
       (a21 * b12 + a22 * b22 + a23 * b32 + a24 * b42)
       (a31 * b12 + a32 * b22 + a33 * b32 + a34 * b42)
       (a41 * b12 + a42 * b22 + a43 * b32 + a44 * b42)
       (a11 * b13 + a12 * b23 + a13 * b33 + a14 * b43)
       (a21 * b13 + a22 * b23 + a23 * b33 + a24 * b43)
       (a31 * b13 + a32 * b23 + a33 * b33 + a34 * b43)
       (a41 * b13 + a42 * b23 + a43 * b33 + a44 * b43)
       (a11 * b14 + a12 * b24 + a13 * b34 + a14 * b44)
       (a21 * b14 + a22 * b24 + a23 * b34 + a24 * b44)
       (a31 * b14 + a32 * b24 + a33 * b34 + a34 * b44)
       (a41 * b14 + a42 * b24 + a43 * b34 + a44 * b44)"

fun scale :: "Matrix4 \<Rightarrow> vec3 \<Rightarrow> Matrix4" where
  "scale (Matrix4 n11 n21 n31 n41 n12 n22 n32 n42 n13 n23 n33 n43 n14 n24 n34 n44) (sx, sy, sz) =
     Matrix4 (n11 * sx) (n21 * sx) (n31 * sx) (n41 * sx)
             (n12 * sy) (n22 * sy) (n32 * sy) (n42 * sy)
             (n13 * sz) (n23 * sz) (n33 * sz) (n43 * sz)
             n14 n24 n34 n44"

text \<open>
  The scaling matrix \<open>diag(sx, sy, sz, 1)\<close>. The source never builds it; it is here to
  state what \<^verbatim>\<open>m.scale(v)\<close> is as a matrix product.
\<close>

definition makeScale :: "real \<Rightarrow> real \<Rightarrow> real \<Rightarrow> Matrix4" where
  "makeScale sx sy sz = Matrix4 sx 0 0 0  0 sy 0 0  0 0 sz 0  0 0 0 1"

text \<open>
  The loaded model: \<^verbatim>\<open>gltf.scene\<close> with the flags the code sets. \<^verbatim>\<open>traverse\<close> gives every
  object under the scene the same \<^verbatim>\<open>visible\<close>, so one flag stands for them all.
  \<open>gltf = None\<close> is the model not loaded yet (\<^verbatim>\<open>this.gltf = null\<close>).
\<close>

record GLTFScene =
  visible :: bool
  matrixAutoUpdate :: bool
  matrix :: Matrix4

record PinnedObject =
  gltf :: "GLTFScene option"
  vertexToPin :: nat

text \<open>
  What the detector returns for a frame: a landmark list for each face, and (when the
  option is on) the data of a transformation matrix for each face.
\<close>

record FaceLandmarkerResult =
  faceLandmarks :: "NormalizedLandmark list list"
  facialTransformationMatrixes :: "real list list option"

text \<open>JavaScript's array read on an array without holes: \<^verbatim>\<open>undefined\<close> out of range.\<close>

definition index :: "'a list \<Rightarrow> nat \<Rightarrow> 'a option" where
  "index xs i = (if i < length xs then Some (xs ! i) else None)"

text \<open>
  \<^verbatim>\<open>applyMatrix(matrix, matrixRetargetOptions?)\<close>; the option \<^verbatim>\<open>scale\<close> defaults to 1 and
  \<^verbatim>\<open>decompose\<close> is read but not used.
\<close>

definition applyMatrix :: "PinnedObject \<Rightarrow> Matrix4 \<Rightarrow> real option \<Rightarrow> PinnedObject" where
  "applyMatrix this m scaleOption =
     (let s = (case scaleOption of None \<Rightarrow> 1 | Some v \<Rightarrow> v)
      in case gltf this of
           None \<Rightarrow> this
         | Some g \<Rightarrow>
             this\<lparr>gltf := Some (g\<lparr>matrixAutoUpdate := False, matrix := scale m (s, s, s)\<rparr>)\<rparr>)"

text \<open>
  \<^verbatim>\<open>faceWidth\<close>, \<^verbatim>\<open>faceHeight\<close>, \<^verbatim>\<open>faceDepth\<close>, from the landmarks 234, 454, 10 and 152.
\<close>

definition faceDimensions ::
  "NormalizedLandmark \<Rightarrow> NormalizedLandmark \<Rightarrow> NormalizedLandmark \<Rightarrow> NormalizedLandmark \<Rightarrow> vec3" where
  "faceDimensions l234 l454 l10 l152 =
     (\<bar>lm_x l234 - lm_x l454\<bar> * 3, \<bar>lm_y l10 - lm_y l152\<bar> * 1.25, \<bar>lm_z l10 - lm_z l152\<bar>)"

text \<open>
  \<^verbatim>\<open>new Vector3(vertex.x - center.x, - vertex.y + center.y, vertex.z - center.z)
  .multiply(faceDimensions).multiplyScalar(120)\<close>
\<close>

definition displacement :: "NormalizedLandmark \<Rightarrow> NormalizedLandmark \<Rightarrow> vec3 \<Rightarrow> vec3" where
  "displacement vertex center dims =
     (case dims of (faceWidth, faceHeight, faceDepth) \<Rightarrow>
        ((lm_x vertex - lm_x center) * faceWidth * 120,
         (- lm_y vertex + lm_y center) * faceHeight * 120,
         (lm_z vertex - lm_z center) * faceDepth * 120))"

text \<open>\<^verbatim>\<open>new THREE.Vector3((vertex.x * 2) - 1, 1 - (vertex.y * 2), vertex.z)\<close>\<close>

definition ndc :: "NormalizedLandmark \<Rightarrow> vec3" where
  "ndc vertex = (lm_x vertex * 2 - 1, 1 - lm_y vertex * 2, lm_z vertex)"

text \<open>
  The body of \<^verbatim>\<open>if (transformationMatrices && transformationMatrices.length > 0)\<close> up to
  the call of \<^verbatim>\<open>applyMatrix\<close>: the matrix it passes on, or \<open>None\<close> when a landmark it reads
  is \<^verbatim>\<open>undefined\<close> (a thrown TypeError). \<^verbatim>\<open>ndc.unproject(scene.camera)\<close> is the library's
  and depends on the camera; it is the argument \<open>unproject\<close>.
\<close>

definition poseMatrix ::
  "(vec3 \<Rightarrow> vec3) \<Rightarrow> NormalizedLandmark list list \<Rightarrow> nat \<Rightarrow> real list \<Rightarrow> Matrix4 option" where
  "poseMatrix unproject faces pin data =
     (case index faces 0 of
        None \<Rightarrow> None
      | Some face \<Rightarrow>
          (case (index face pin, index face 1, index face 234, index face 454,
                 index face 10, index face 152) of
             (Some vertex, Some center, Some l234, Some l454, Some l10, Some l152) \<Rightarrow>
               (case displacement vertex center (faceDimensions l234 l454 l10 l152) of
                  (dx, dy, dz) \<Rightarrow>
                    (case unproject (ndc vertex) of
                       (wx, wy, wz) \<Rightarrow>
                         Some (multiply (multiply (fromArray data) (makeTranslation wx wy wz))
                                 (makeTranslation dx dy dz))))
           | _ \<Rightarrow> None))"

text \<open>
  \<^verbatim>\<open>detectFaceLandmarks\<close>, on the pinned object. \<open>detection = None\<close> is the early return of
  \<^verbatim>\<open>if (!faceLandmarker) return\<close>. The result pairs the object after the frame with the error
  thrown, if any: what the frame wrote before throwing stays written. The drawing of the
  face grid is left out.
\<close>

definition detectFaceLandmarks ::
  "(vec3 \<Rightarrow> vec3) \<Rightarrow> FaceLandmarkerResult option \<Rightarrow> PinnedObject \<Rightarrow> PinnedObject \<times> error option" where
  "detectFaceLandmarks unproject detection object =
     (case detection of
        None \<Rightarrow> (object, None)
      | Some landmarks \<Rightarrow>
          let object1 =
                (case gltf object of
                   None \<Rightarrow> object
                 | Some g \<Rightarrow> object\<lparr>gltf := Some (g\<lparr>visible := (length (faceLandmarks landmarks) > 0)\<rparr>)\<rparr>)
          in case facialTransformationMatrixes landmarks of
               Some (tm # tms) \<Rightarrow>
                 (case poseMatrix unproject (faceLandmarks landmarks) (vertexToPin object) tm of
                    None \<Rightarrow> (object1, Some TypeError)
                  | Some m \<Rightarrow> (applyMatrix object1 m (Some 5), None))
             | _ \<Rightarrow> (object1, None))"

section \<open>Hit tester and gesture debouncer: \<^verbatim>\<open>hands.ts\<close>\<close>

record BoundingBox =
  originX :: real
  originY :: real
  width :: real
  height :: real
  angle :: real

text \<open>
  The box of one hand in \<^verbatim>\<open>predictWebcam\<close>: the running minimum and maximum start at
  \<open>1\<close> and \<open>0\<close>. The accumulator is \<^verbatim>\<open>(minX, maxX, minY, maxY)\<close>.
\<close>

fun minMax :: "NormalizedLandmark list \<Rightarrow> real \<times> real \<times> real \<times> real \<Rightarrow> real \<times> real \<times> real \<times> real" where
  "minMax [] acc = acc"
| "minMax (landmark # landmarks) (minX, maxX, minY, maxY) =
     minMax landmarks
       (if lm_x landmark < minX then lm_x landmark else minX,
        if lm_x landmark > maxX then lm_x landmark else maxX,
        if lm_y landmark < minY then lm_y landmark else minY,
        if lm_y landmark > maxY then lm_y landmark else maxY)"

definition boundingBox :: "NormalizedLandmark list \<Rightarrow> real \<Rightarrow> real \<Rightarrow> BoundingBox" where
  "boundingBox landmarks canvasWidth canvasHeight =
     (case minMax landmarks (1, 0, 1, 0) of
        (minX, maxX, minY, maxY) \<Rightarrow>
          \<lparr>originX = minX * canvasWidth, originY = minY * canvasHeight,
           width = (maxX - minX) * canvasWidth, height = (maxY - minY) * canvasHeight,
           angle = 0\<rparr>)"

record Target =
  target_x :: real
  target_y :: real
  radius :: real

text \<open>
  The game. \<^verbatim>\<open>lastHandStates\<close> is a JavaScript array written by index, so a map from the
  hand's index; \<open>dispatched\<close> lists the \<^verbatim>\<open>detail\<close> of every \<^verbatim>\<open>scoreChanged\<close> event sent.
\<close>

record Game =
  score :: real
  lastHandStates :: "nat \<rightharpoonup> string"
  target :: Target
  dispatched :: "real list"

text \<open>The test of \<^verbatim>\<open>Target.hit\<close>; when it holds the target dispatches \<^verbatim>\<open>hit\<close>.\<close>

definition hit :: "Target \<Rightarrow> BoundingBox \<Rightarrow> bool" where
  "hit this box =
     (target_x this \<ge> originX box \<and> target_x this \<le> originX box + width box \<and>
      target_y this \<ge> originY box \<and> target_y this \<le> originY box + height box)"

definition addScore :: "Game \<Rightarrow> real \<Rightarrow> Game" where
  "addScore this points =
     this\<lparr>score := score this + points, dispatched := dispatched this @ [score this + points]\<rparr>"

text \<open>
  \<^verbatim>\<open>generateNewTarget\<close>. The canvas size is an argument, and \<^verbatim>\<open>Math.random()\<close> takes its
  numbers from a stream that is passed along.
\<close>

definition generateNewTarget :: "real \<Rightarrow> real \<Rightarrow> Game \<times> real stream \<Rightarrow> Game \<times> real stream" where
  "generateNewTarget canvasWidth canvasHeight st =
     (case st of (this, random) \<Rightarrow>
        let radius = 5;
            margin = 20;
            x = shd random * canvasWidth;
            y = shd (stl random) * canvasHeight;
            x' = max (radius + margin) (min x (canvasWidth - radius - margin));
            y' = max (radius + margin) (min y (canvasHeight - radius - margin))
        in (this\<lparr>target := \<lparr>target_x = x', target_y = y', radius = radius\<rparr>\<rparr>, stl (stl random)))"

text \<open>\<^verbatim>\<open>onHit\<close>, the listener of the target's \<^verbatim>\<open>hit\<close> event.\<close>

definition onHit :: "real \<Rightarrow> real \<Rightarrow> Game \<times> real stream \<Rightarrow> Game \<times> real stream" where
  "onHit canvasWidth canvasHeight st =
     (case st of (this, random) \<Rightarrow> generateNewTarget canvasWidth canvasHeight (addScore this 1, random))"






section \<open>Notions used in the statements and proofs\<close>

text \<open>
  With the landmark at ring position \<open>k\<close> written \<open>p k\<close>: the three vertices and the three
  UVs that iteration \<open>k\<close> of the vertex loop pushes, and what the iterations from \<open>i\<close> on
  add to \<^verbatim>\<open>sum\<close> for a ring of \<open>n\<close> points.
\<close>

definition tri :: "(nat \<Rightarrow> NormalizedLandmark) \<Rightarrow> nat \<Rightarrow> vec3 list" where
  "tri p k = [scaled (p k), scaled (p (k + 1)), scaled (p (k + 2))]"

definition triUV :: "(nat \<Rightarrow> NormalizedLandmark) \<Rightarrow> nat \<Rightarrow> vec2 list" where
  "triUV p k = [uvOf (p k), uvOf (p (k + 1)), uvOf (p (k + 2))]"

definition rest :: "(nat \<Rightarrow> NormalizedLandmark) \<Rightarrow> nat \<Rightarrow> nat \<Rightarrow> vec3" where
  "rest p n i =
     vadd (if i = 0 then scaled (p 0) else (0, 0, 0))
       (vadd (vsum (map (\<lambda>k. scaled (p (k + 1))) [i..<n - 2]))
          (if i + 3 \<le> n then scaled (p (n - 1)) else (0, 0, 0)))"

text \<open>A bounding box moved by a vector.\<close>

definition shiftBox :: "vec3 \<Rightarrow> vec3 \<times> vec3 \<Rightarrow> vec3 \<times> vec3" where
  "shiftBox t box = (vadd (fst box) t, vadd (snd box) t)"

text \<open>
  A frame's mouth landmarks for the examples: twenty points, the one at index \<open>k\<close> being
  \<open>(k/20, k/40, -k/100)\<close>.
\<close>

definition mouthPoint :: "nat \<Rightarrow> NormalizedLandmark" where
  "mouthPoint k = \<lparr>lm_x = real k / 20, lm_y = real k / 40, lm_z = - real k / 100\<rparr>"

definition mouthExample :: landmarks where
  "mouthExample = map (\<lambda>k. Some (mouthPoint k)) [0..<20]"

text \<open>
  Twenty mouth landmarks that are not spread evenly: the one at index 0 is \<open>(1, 0, 0)\<close>,
  the others are at the origin.
\<close>

definition skewPoint :: "nat \<Rightarrow> NormalizedLandmark" where
  "skewPoint k = \<lparr>lm_x = (if k = 0 then 1 else 0), lm_y = 0, lm_z = 0\<rparr>"

definition skewExample :: landmarks where
  "skewExample = map (\<lambda>k. Some (skewPoint k)) [0..<20]"


text \<open>
  Example data: a face of 478 landmarks, a loaded model whose pin vertex is 10 as in
  \<^verbatim>\<open>new PinnedObject("/monke.glb", scene.scene, 10)\<close>, the identity matrix, and a game
  in play.
\<close>

definition facePoint :: "nat \<Rightarrow> NormalizedLandmark" where
  "facePoint k = \<lparr>lm_x = real k / 1000, lm_y = real k / 2000, lm_z = - real k / 4000\<rparr>"

definition faceExample :: "NormalizedLandmark list" where
  "faceExample = map facePoint [0..<478]"

definition identity :: Matrix4 where
  "identity = Matrix4 1 0 0 0  0 1 0 0  0 0 1 0  0 0 0 1"

definition objectExample :: PinnedObject where
  "objectExample = \<lparr>gltf = Some \<lparr>visible = False, matrixAutoUpdate = True, matrix = identity\<rparr>,
                     vertexToPin = 10\<rparr>"

definition gameExample :: Game where
  "gameExample = \<lparr>score = 0, lastHandStates = Map.empty,
      target = \<lparr>target_x = 100, target_y = 100, radius = 5\<rparr>, dispatched = []\<rparr>"

section \<open>The ring triangulator: proofs\<close>

lemma vadd_assoc: "vadd (vadd a b) c = vadd a (vadd b c)"
  by (cases a; cases b; cases c) (simp add: vadd_def)

lemma vadd_commute: "vadd a b = vadd b a"
  by (cases a; cases b) (simp add: vadd_def)

lemma vadd_left_commute: "vadd a (vadd b c) = vadd b (vadd a c)"
  by (cases a; cases b; cases c) (simp add: vadd_def)

lemma vadd_zero [simp]: "vadd a (0, 0, 0) = a" "vadd (0, 0, 0) a = a"
  by (cases a; simp add: vadd_def)+

lemmas vadd_ac = vadd_assoc vadd_commute vadd_left_commute

lemma vsum_append: "vsum (xs @ ys) = vadd (vsum xs) (vsum ys)"
  by (induction xs) (simp_all add: vadd_assoc)

lemma vsum_scaled:
  "vsum (map (\<lambda>k. scaled (p k)) ks) =
     (2 * sum_list (map (\<lambda>k. lm_x (p k)) ks), 2 * sum_list (map (\<lambda>k. lm_y (p k)) ks),
      2 * sum_list (map (\<lambda>k. lm_z (p k)) ks))"
  by (induction ks) (simp_all add: vadd_def scaled_def algebra_simps)

lemma triangles_concat:
  "triangles (concat (map (\<lambda>k. [f k, g k, h k]) ks)) = map (\<lambda>k. (f k, g k, h k)) ks"
  by (induction ks) simp_all

lemma length_concat3: "length (concat (map (\<lambda>k. [f k, g k, h k]) ks)) = 3 * length ks"
  by (induction ks) simp_all

lemma nth_concat3:
  "v < 3 * t \<Longrightarrow>
     concat (map (\<lambda>k. [f k, g k, h k]) [0..<t]) ! v = [f (v div 3), g (v div 3), h (v div 3)] ! (v mod 3)"
proof (induction t)
  case 0
  then show ?case by simp
next
  case (Suc t)
  have len: "length (concat (map (\<lambda>k. [f k, g k, h k]) [0..<t])) = 3 * t"
    by (simp add: length_concat3)
  show ?case
  proof (cases "v < 3 * t")
    case True
    then show ?thesis using Suc.IH by (simp add: nth_append len)
  next
    case False
    then have d: "v div 3 = t" and m: "v mod 3 = v - 3 * t" using Suc.prems by presburger+
    show ?thesis using False by (simp add: nth_append len d m)
  qed
qed

lemma pick3: "j < 3 \<Longrightarrow> [f k, f (k + 1), f (k + 2)] ! j = f (k + j)"
proof -
  assume "j < 3"
  then have "j = 0 \<or> j = 1 \<or> j = 2" by arith
  then show ?thesis by auto
qed

lemma nth_strip:
  assumes "i < t" and "j < 3"
  shows "concat (map (\<lambda>k. [f k, f (k + 1), f (k + 2)]) [0..<t]) ! (3 * i + j) = f (i + j)"
proof -
  have v: "3 * i + j < 3 * t" using assms by simp
  have d: "(3 * i + j) div 3 = i" and r: "(3 * i + j) mod 3 = j" using assms(2) by simp_all
  have "concat (map (\<lambda>k. [f k, f (k + 1), f (k + 2)]) [0..<t]) ! (3 * i + j)
        = [f ((3 * i + j) div 3), f ((3 * i + j) div 3 + 1), f ((3 * i + j) div 3 + 2)] ! ((3 * i + j) mod 3)"
    by (rule nth_concat3[OF v])
  also have "\<dots> = [f i, f (i + 1), f (i + 2)] ! j" by (simp only: d r)
  also have "\<dots> = f (i + j)" by (rule pick3[OF assms(2)])
  finally show ?thesis .
qed

lemma hd_strip: "0 < t \<Longrightarrow> hd (concat (map (\<lambda>k. [f k, g k, h k]) [0..<t])) = f 0"
  by (simp add: upt_conv_Cons)

lemma last_strip: "0 < t \<Longrightarrow> last (concat (map (\<lambda>k. [f k, g k, h k]) [0..<t])) = h (t - 1)"
proof -
  assume "0 < t"
  then have "t = Suc (t - 1)" by simp
  then have "[0..<t] = [0..<t - 1] @ [t - 1]"
    by (metis le0 upt_Suc_append)
  then show ?thesis by simp
qed

text \<open>
  The vertex loop in closed form: started at counter \<open>i\<close> with every landmark of the
  ring present, it appends the triples of the iterations still to run.
\<close>

lemma setupVertices_closed:
  assumes "\<forall>k<length ring. entry ls (ring ! k) = Some (p k)" and "3 \<le> length ring"
    and "i \<le> length ring - 2"
  shows "setupVertices ring ls i (vs, uvs, s) =
           Inr (vs @ concat (map (tri p) [i..<length ring - 2]),
                uvs @ concat (map (triUV p) [i..<length ring - 2]),
                vadd s (rest p (length ring) i))"
  using assms
proof (induction "length ring - 2 - i" arbitrary: i vs uvs s)
  case 0
  then have "i = length ring - 2" by simp
  have nc: "\<not> int i < int (length ring) - 2" using \<open>i = length ring - 2\<close> by linarith
  show ?case
    apply (subst setupVertices.simps)
    using nc \<open>i = length ring - 2\<close> \<open>3 \<le> length ring\<close> apply (simp add: rest_def)
    done
next
  case (Suc d)
  then have lt: "i < length ring - 2" by simp
  then have e: "entry ls (ring ! i) = Some (p i)" "entry ls (ring ! (i + 1)) = Some (p (i + 1))"
    "entry ls (ring ! (i + 2)) = Some (p (i + 2))"
    using Suc.prems(1) by simp_all
  have d: "d = length ring - 2 - (i + 1)" using Suc.hyps(2) by simp
  have le: "i + 1 \<le> length ring - 2" using lt by simp
  have cond: "int i < int (length ring) - 2" using lt by linarith
  have c3: "(int i = int (length ring) - 3) = (i + 3 = length ring)" using lt by linarith
  have upt: "[i..<length ring - 2] = i # [i + 1..<length ring - 2]"
    using lt by (simp add: upt_conv_Cons)
  have r: "vadd (vadd (if i + 3 = length ring then vadd (if i = 0 then vadd s (scaled (p 0)) else s) (scaled (p (i + 2)))
                else (if i = 0 then vadd s (scaled (p 0)) else s)) (scaled (p (i + 1)))) (rest p (length ring) (i + 1))
        = vadd s (rest p (length ring) i)"
  proof (cases "i + 3 = length ring")
    case True
    then have "length ring - 1 = i + 2" "length ring - 2 = i + 1" by simp_all
    then show ?thesis using True by (simp add: rest_def vadd_ac)
  next
    case False
    then have "i + 4 \<le> length ring" using lt by simp
    then show ?thesis using False lt by (simp add: rest_def upt vadd_ac)
  qed
  show ?case
    apply (subst setupVertices.simps)
    apply (simp only: cond if_True e prod.case option.case Let_def c3)
    apply (subst Suc.hyps(1)[OF d Suc.prems(1) Suc.prems(2) le])
    using r apply (auto simp add: upt tri_def triUV_def)
    done
qed

lemma rest_all:
  assumes "3 \<le> n"
  shows "rest p n 0 = vsum (map (\<lambda>k. scaled (p k)) [0..<n])"
proof -
  have a: "[0..<n] = 0 # [1..<n - 1] @ [n - 1]"
  proof -
    have "[0..<n] = [0..<n - 1] @ [n - 1]"
    proof -
      have "n = Suc (n - 1)" using assms by simp
      then have "[0..<n] = [0..<Suc (n - 1)]" by simp
      then show ?thesis by (simp only: upt_Suc_append[OF le0])
    qed
    also have "[0..<n - 1] = 0 # [1..<n - 1]" using assms by (simp add: upt_conv_Cons)
    finally show ?thesis by simp
  qed
  have b: "map (\<lambda>k. scaled (p (k + 1))) [0..<n - 2] = map (\<lambda>k. scaled (p k)) [1..<n - 1]"
  proof -
    have "[1..<n - 1] = map Suc [0..<n - 2]"
      using assms by (simp add: map_Suc_upt numeral_2_eq_2 Suc_diff_Suc)
    then show ?thesis by (simp add: comp_def)
  qed
  show ?thesis
    unfolding rest_def b using assms by (subst a) (simp add: vsum_append)
qed

lemma setupVertices_run:
  assumes "\<forall>k<length ring. entry ls (ring ! k) = Some (p k)" and "3 \<le> length ring"
  shows "setupVertices ring ls 0 ([], [], (0, 0, 0)) =
           Inr (concat (map (tri p) [0..<length ring - 2]),
                concat (map (triUV p) [0..<length ring - 2]),
                vsum (map (\<lambda>k. scaled (p k)) [0..<length ring]))"
  using setupVertices_closed[OF assms, of 0 "[]" "[]" "(0, 0, 0)"] rest_all[OF assms(2), of p]
  by simp

text \<open>
  A missing landmark at a ring position that an iteration still to run reads makes the
  loop throw.
\<close>

lemma setupVertices_missing:
  assumes "i + 3 \<le> length ring" and "i \<le> k" and "k < length ring" and "entry ls (ring ! k) = None"
  shows "setupVertices ring ls i acc = Inl TypeError"
  using assms
proof (induction "k - i" arbitrary: i acc)
  case 0
  then have ki: "k = i" by simp
  have cond: "int i < int (length ring) - 2" using "0.prems"(1) by linarith
  show ?case
    apply (subst setupVertices.simps)
    using cond "0.prems"(4) ki apply (simp split: option.splits)
    done
next
  case (Suc d)
  have cond: "int i < int (length ring) - 2" using Suc.prems(1) by linarith
  show ?case
  proof (cases "k \<le> i + 2")
    case True
    then have "k = i + 1 \<or> k = i + 2" using Suc.hyps(2) by linarith
    then show ?thesis
      apply (subst setupVertices.simps)
      using cond Suc.prems(4) apply (auto split: option.splits)
      done
  next
    case False
    then have a: "i + 1 + 3 \<le> length ring" and b: "i + 1 \<le> k" using Suc.prems(3) by linarith+
    have d: "d = k - (i + 1)" using Suc.hyps(2) by simp
    have ih: "setupVertices ring ls (i + 1) acc' = Inl TypeError" for acc'
      by (rule Suc.hyps(1)[OF d a b Suc.prems(3,4)])
    then have ih': "setupVertices ring ls (Suc i) acc' = Inl TypeError" for acc'
      by simp
    show ?thesis
      apply (subst setupVertices.simps)
      using cond apply (simp add: ih' Let_def split: option.splits prod.splits)
      done
  qed
qed

lemma present_nonempty:
  assumes "\<forall>k<length ring. entry ls (ring ! k) = Some (p k)" and "0 < length ring"
  shows "ls \<noteq> []"
proof
  assume "ls = []"
  then have "entry ls (ring ! 0) = None" by (simp add: entry_def)
  with assms show False by auto
qed

lemma ring_len: "length MOUTH_INDICES_SORTED = 20"
  by (simp add: MOUTH_INDICES_SORTED_def)

lemma mouthExample_present:
  "\<forall>k<length MOUTH_INDICES_SORTED.
     entry mouthExample (MOUTH_INDICES_SORTED ! k) = Some (mouthPoint (MOUTH_INDICES_SORTED ! k))"
proof -
  have "\<forall>i\<in>set MOUTH_INDICES_SORTED. i < 20"
    by (simp add: MOUTH_INDICES_SORTED_def)
  then have "\<forall>k<length MOUTH_INDICES_SORTED. MOUTH_INDICES_SORTED ! k < 20"
    by (simp add: all_set_conv_all_nth)
  then show ?thesis
    by (simp add: entry_def mouthExample_def)
qed

lemma mouthExample_all: "DRAW_NUMBERS \<longrightarrow> None \<notin> set mouthExample"
  by (auto simp: mouthExample_def)

text \<open>
  \<^bold>\<open>Claim C1.\<close> For every ring of \<open>2N\<close> points, \<open>N \<ge> 2\<close>, whose landmarks are all
  present (\<open>p k\<close> is the landmark at ring position \<open>k\<close>), \<^verbatim>\<open>landmarksToMesh\<close> returns a
  mesh of exactly \<open>2N - 2\<close> triangles; triangle \<open>i\<close> has the vertices of the ring points
  \<open>i\<close>, \<open>i + 1\<close>, \<open>i + 2\<close>, and the UV of each vertex is the normalized \<open>(x, y)\<close> of its
  landmark.
\<close>

theorem ring_triangulator_strip:
  assumes "length ring = 2 * N" and "2 \<le> N"
    and "\<forall>k<length ring. entry ls (ring ! k) = Some (p k)"
    and dn: "DRAW_NUMBERS \<longrightarrow> None \<notin> set ls"
  shows "\<exists>m vs uvs. landmarksToMesh center DRAW_NUMBERS ring ls = Inr (Some m)
           \<and> geometry_position m = center (flat3 vs) \<and> geometry_uv m = flat2 uvs
           \<and> length vs = 3 * (2 * N - 2) \<and> length uvs = 3 * (2 * N - 2)
           \<and> length (triangles vs) = 2 * N - 2
           \<and> triangles vs = map (\<lambda>i. (scaled (p i), scaled (p (i + 1)), scaled (p (i + 2)))) [0..<2 * N - 2]
           \<and> triangles uvs =
               map (\<lambda>i. ((lm_x (p i), lm_y (p i)), (lm_x (p (i + 1)), lm_y (p (i + 1))),
                          (lm_x (p (i + 2)), lm_y (p (i + 2))))) [0..<2 * N - 2]"
proof -
  have n3: "3 \<le> length ring" using assms(1,2) by simp
  have pos: "0 < length ring" using n3 by linarith
  have ne: "ls \<noteq> []" by (rule present_nonempty[OF assms(3) pos])
  have run: "setupVertices ring ls 0 ([], [], (0, 0, 0)) =
      Inr (concat (map (tri p) [0..<2 * N - 2]), concat (map (triUV p) [0..<2 * N - 2]),
           rest p (length ring) 0)"
    using setupVertices_closed[OF assms(3) n3, of 0 "[]" "[]" "(0, 0, 0)"] assms(1) by simp
  let ?vs = "concat (map (tri p) [0..<2 * N - 2])"
  let ?uvs = "concat (map (triUV p) [0..<2 * N - 2])"
  let ?m = "\<lparr>geometry_position = center (flat3 ?vs), geometry_uv = flat2 ?uvs,
             position = vdiv (rest p (length ring) 0) (real (length ring))\<rparr>"
  have m: "landmarksToMesh center DRAW_NUMBERS ring ls = Inr (Some ?m)"
    unfolding landmarksToMesh_def run using ne dn by (simp add: Let_def)
  have tv: "tri p = (\<lambda>k. [scaled (p k), scaled (p (k + 1)), scaled (p (k + 2))])"
    by (rule ext) (simp add: tri_def)
  have tu: "triUV p = (\<lambda>k. [(lm_x (p k), lm_y (p k)), (lm_x (p (k + 1)), lm_y (p (k + 1))),
                              (lm_x (p (k + 2)), lm_y (p (k + 2)))])"
    by (rule ext) (simp add: triUV_def uvOf_def)
  have "length ?vs = 3 * (2 * N - 2)" "length ?uvs = 3 * (2 * N - 2)"
    "length (triangles ?vs) = 2 * N - 2"
    "triangles ?vs = map (\<lambda>i. (scaled (p i), scaled (p (i + 1)), scaled (p (i + 2)))) [0..<2 * N - 2]"
    "triangles ?uvs =
       map (\<lambda>i. ((lm_x (p i), lm_y (p i)), (lm_x (p (i + 1)), lm_y (p (i + 1))),
                  (lm_x (p (i + 2)), lm_y (p (i + 2))))) [0..<2 * N - 2]"
    unfolding tv tu by (simp_all only: triangles_concat length_concat3 length_map length_upt diff_zero)
  with m show ?thesis
    by (intro exI[of _ ?m] exI[of _ ?vs] exI[of _ ?uvs]) simp
qed

text \<open>
  The ring of the source and the twenty example landmarks: eighteen triangles, the first
  from the ring points 15, 16 and 14.
\<close>

theorem ring_triangulator_strip_witness:
  "\<exists>m vs uvs. landmarksToMesh id True MOUTH_INDICES_SORTED mouthExample = Inr (Some m)
     \<and> geometry_position m = flat3 vs \<and> geometry_uv m = flat2 uvs
     \<and> length (triangles vs) = 18 \<and> length (triangles uvs) = 18
     \<and> hd (triangles uvs) = (uvOf (mouthPoint 15), uvOf (mouthPoint 16), uvOf (mouthPoint 14))"
proof -
  have len: "length MOUTH_INDICES_SORTED = 2 * 10"
    by (simp add: MOUTH_INDICES_SORTED_def)
  have two: "(2::nat) \<le> 10" by simp
  have h: "hd (map (\<lambda>i. ((lm_x (mouthPoint (MOUTH_INDICES_SORTED ! i)), lm_y (mouthPoint (MOUTH_INDICES_SORTED ! i))),
                      (lm_x (mouthPoint (MOUTH_INDICES_SORTED ! (i + 1))), lm_y (mouthPoint (MOUTH_INDICES_SORTED ! (i + 1)))),
                      (lm_x (mouthPoint (MOUTH_INDICES_SORTED ! (i + 2))), lm_y (mouthPoint (MOUTH_INDICES_SORTED ! (i + 2))))))
              [0..<2 * 10 - 2])
           = (uvOf (mouthPoint 15), uvOf (mouthPoint 16), uvOf (mouthPoint 14))"
    by (simp add: upt_conv_Cons MOUTH_INDICES_SORTED_def uvOf_def)
  from ring_triangulator_strip [OF len two mouthExample_present mouthExample_all, where center = id and DRAW_NUMBERS = True]
  obtain m vs uvs where
    "landmarksToMesh id True MOUTH_INDICES_SORTED mouthExample = Inr (Some m)"
    "geometry_position m = id (flat3 vs)" "geometry_uv m = flat2 uvs"
    "length (triangles vs) = 2 * 10 - 2"
    "triangles uvs = map (\<lambda>i. ((lm_x (mouthPoint (MOUTH_INDICES_SORTED ! i)), lm_y (mouthPoint (MOUTH_INDICES_SORTED ! i))),
                      (lm_x (mouthPoint (MOUTH_INDICES_SORTED ! (i + 1))), lm_y (mouthPoint (MOUTH_INDICES_SORTED ! (i + 1)))),
                      (lm_x (mouthPoint (MOUTH_INDICES_SORTED ! (i + 2))), lm_y (mouthPoint (MOUTH_INDICES_SORTED ! (i + 2))))))
              [0..<2 * 10 - 2]"
    by blast
  then show ?thesis using h
    by (intro exI[of _ m] exI[of _ vs] exI[of _ uvs]) simp
qed

text \<open>
  \<^bold>\<open>Claim C10.\<close> Every vertex position the loop emits is its landmark's coordinates
  times two on each axis, the UV at the same place is the landmark's \<open>(x, y)\<close> unscaled,
  and the position of the mesh is twice the mean of the ring's landmarks. The vertices are
  those before \<^verbatim>\<open>geometry.center()\<close>.
\<close>

theorem vertices_scaled_by_two:
  assumes "3 \<le> length ring" and "\<forall>k<length ring. entry ls (ring ! k) = Some (p k)"
    and dn: "DRAW_NUMBERS \<longrightarrow> None \<notin> set ls"
  shows "\<exists>vs uvs s m. setupVertices ring ls 0 ([], [], (0, 0, 0)) = Inr (vs, uvs, s)
           \<and> length vs = 3 * (length ring - 2) \<and> length uvs = length vs
           \<and> (\<forall>i<length ring - 2. \<forall>j<3.
                 vs ! (3 * i + j) = (lm_x (p (i + j)) * 2, lm_y (p (i + j)) * 2, lm_z (p (i + j)) * 2)
                 \<and> uvs ! (3 * i + j) = (lm_x (p (i + j)), lm_y (p (i + j))))
           \<and> landmarksToMesh center DRAW_NUMBERS ring ls = Inr (Some m)
           \<and> geometry_position m = center (flat3 vs)
           \<and> position m =
                (2 * (sum_list (map (\<lambda>k. lm_x (p k)) [0..<length ring]) / real (length ring)),
                 2 * (sum_list (map (\<lambda>k. lm_y (p k)) [0..<length ring]) / real (length ring)),
                 2 * (sum_list (map (\<lambda>k. lm_z (p k)) [0..<length ring]) / real (length ring)))"
proof -
  let ?t = "length ring - 2"
  let ?vs = "concat (map (tri p) [0..<?t])"
  let ?uvs = "concat (map (triUV p) [0..<?t])"
  let ?s = "vsum (map (\<lambda>k. scaled (p k)) [0..<length ring])"
  let ?m = "\<lparr>geometry_position = center (flat3 ?vs), geometry_uv = flat2 ?uvs,
             position = vdiv ?s (real (length ring))\<rparr>"
  have run: "setupVertices ring ls 0 ([], [], (0, 0, 0)) = Inr (?vs, ?uvs, ?s)"
    by (rule setupVertices_run[OF assms(2,1)])
  have pos: "0 < length ring" using assms(1) by linarith
  have ne: "ls \<noteq> []" by (rule present_nonempty[OF assms(2) pos])
  have m: "landmarksToMesh center DRAW_NUMBERS ring ls = Inr (Some ?m)"
    unfolding landmarksToMesh_def run using ne dn by (simp add: Let_def)
  have tv: "tri p = (\<lambda>k. [scaled (p k), scaled (p (k + 1)), scaled (p (k + 2))])"
    by (rule ext) (simp add: tri_def)
  have tu: "triUV p = (\<lambda>k. [uvOf (p k), uvOf (p (k + 1)), uvOf (p (k + 2))])"
    by (rule ext) (simp add: triUV_def)
  have lv: "length ?vs = 3 * ?t" and lu: "length ?uvs = 3 * ?t"
    unfolding tv tu by (simp_all only: length_concat3 length_map length_upt diff_zero)
  have el: "?vs ! (3 * i + j) = (lm_x (p (i + j)) * 2, lm_y (p (i + j)) * 2, lm_z (p (i + j)) * 2)
            \<and> ?uvs ! (3 * i + j) = (lm_x (p (i + j)), lm_y (p (i + j)))"
    if "i < ?t" and "j < 3" for i j
  proof -
    have "?vs ! (3 * i + j) = scaled (p (i + j))"
      unfolding tv by (rule nth_strip[OF that])
    moreover have "?uvs ! (3 * i + j) = uvOf (p (i + j))"
      unfolding tu by (rule nth_strip[OF that])
    ultimately show ?thesis by (simp add: scaled_def uvOf_def)
  qed
  have ps: "position ?m =
                (2 * (sum_list (map (\<lambda>k. lm_x (p k)) [0..<length ring]) / real (length ring)),
                 2 * (sum_list (map (\<lambda>k. lm_y (p k)) [0..<length ring]) / real (length ring)),
                 2 * (sum_list (map (\<lambda>k. lm_z (p k)) [0..<length ring]) / real (length ring)))"
    by (simp add: vsum_scaled vdiv_def)
  show ?thesis
    apply (intro exI[of _ ?vs] exI[of _ ?uvs] exI[of _ ?s] exI[of _ ?m] conjI)
    apply (rule run)
    apply (rule lv)
    apply (simp only: lv lu)
    using el apply blast
    apply (rule m)
    apply simp
    apply (rule ps)
    done
qed

theorem vertices_scaled_by_two_witness:
  "\<exists>vs uvs s m. setupVertices MOUTH_INDICES_SORTED mouthExample 0 ([], [], (0, 0, 0)) = Inr (vs, uvs, s)
     \<and> length vs = 54 \<and> length uvs = 54
     \<and> vs ! 4 = (lm_x (mouthPoint 14) * 2, lm_y (mouthPoint 14) * 2, lm_z (mouthPoint 14) * 2)
     \<and> uvs ! 4 = (lm_x (mouthPoint 14), lm_y (mouthPoint 14))
     \<and> landmarksToMesh id True MOUTH_INDICES_SORTED mouthExample = Inr (Some m)
     \<and> position m = (19 / 20, 19 / 40, - 19 / 100)"
proof -
  have n3: "3 \<le> length MOUTH_INDICES_SORTED" by (simp add: ring_len)
  have sx: "sum_list (map (\<lambda>k. lm_x (mouthPoint (MOUTH_INDICES_SORTED ! k))) [0..<20]) = 19 / 2"
    and sy: "sum_list (map (\<lambda>k. lm_y (mouthPoint (MOUTH_INDICES_SORTED ! k))) [0..<20]) = 19 / 4"
    and sz: "sum_list (map (\<lambda>k. lm_z (mouthPoint (MOUTH_INDICES_SORTED ! k))) [0..<20]) = - 19 / 10"
    by (simp_all add: upt_conv_Cons MOUTH_INDICES_SORTED_def mouthPoint_def)
  have i16: "MOUTH_INDICES_SORTED ! Suc (Suc 0) = 14"
    by (simp add: MOUTH_INDICES_SORTED_def)
  from vertices_scaled_by_two [OF n3 mouthExample_present mouthExample_all, where center = id and DRAW_NUMBERS = True]
  obtain vs uvs s m where r:
    "setupVertices MOUTH_INDICES_SORTED mouthExample 0 ([], [], (0, 0, 0)) = Inr (vs, uvs, s)"
    "length vs = 3 * (length MOUTH_INDICES_SORTED - 2)" "length uvs = length vs"
    "\<forall>i<length MOUTH_INDICES_SORTED - 2. \<forall>j<3.
        vs ! (3 * i + j) = (lm_x (mouthPoint (MOUTH_INDICES_SORTED ! (i + j))) * 2,
                            lm_y (mouthPoint (MOUTH_INDICES_SORTED ! (i + j))) * 2,
                            lm_z (mouthPoint (MOUTH_INDICES_SORTED ! (i + j))) * 2)
        \<and> uvs ! (3 * i + j) = (lm_x (mouthPoint (MOUTH_INDICES_SORTED ! (i + j))),
                                 lm_y (mouthPoint (MOUTH_INDICES_SORTED ! (i + j))))"
    "landmarksToMesh id True MOUTH_INDICES_SORTED mouthExample = Inr (Some m)"
    "position m =
       (2 * (sum_list (map (\<lambda>k. lm_x (mouthPoint (MOUTH_INDICES_SORTED ! k))) [0..<length MOUTH_INDICES_SORTED]) / real (length MOUTH_INDICES_SORTED)),
        2 * (sum_list (map (\<lambda>k. lm_y (mouthPoint (MOUTH_INDICES_SORTED ! k))) [0..<length MOUTH_INDICES_SORTED]) / real (length MOUTH_INDICES_SORTED)),
        2 * (sum_list (map (\<lambda>k. lm_z (mouthPoint (MOUTH_INDICES_SORTED ! k))) [0..<length MOUTH_INDICES_SORTED]) / real (length MOUTH_INDICES_SORTED)))"
    by blast
  have "(1::nat) < length MOUTH_INDICES_SORTED - 2" "(1::nat) < 3" by (simp_all add: ring_len)
  with r(4) have e: "vs ! (3 * 1 + 1) = (lm_x (mouthPoint (MOUTH_INDICES_SORTED ! (1 + 1))) * 2,
                            lm_y (mouthPoint (MOUTH_INDICES_SORTED ! (1 + 1))) * 2,
                            lm_z (mouthPoint (MOUTH_INDICES_SORTED ! (1 + 1))) * 2)
        \<and> uvs ! (3 * 1 + 1) = (lm_x (mouthPoint (MOUTH_INDICES_SORTED ! (1 + 1))),
                                 lm_y (mouthPoint (MOUTH_INDICES_SORTED ! (1 + 1))))"
    by blast
  show ?thesis
    apply (intro exI[of _ vs] exI[of _ uvs] exI[of _ s] exI[of _ m] conjI)
    apply (rule r(1))
    using r(2) apply (simp add: ring_len)
    using r(2,3) apply (simp add: ring_len)
    using e apply (simp add: i16)
    using e apply (simp add: i16)
    apply (rule r(5))
    using r(6) apply (simp add: ring_len sx sy sz)
    done
qed

text \<open>
  Whatever the library's recentring does to the vertices, the position of the mesh is the
  sum of the first vertex, the middle vertex of every triangle and the last vertex, divided
  by the length of the ring, which is the mean of the ring's vertex positions.
\<close>

lemma placement_mean:
  assumes "3 \<le> length ring" and "\<forall>k<length ring. entry ls (ring ! k) = Some (p k)"
    and dn: "DRAW_NUMBERS \<longrightarrow> None \<notin> set ls"
  shows "\<exists>m vs. landmarksToMesh center DRAW_NUMBERS ring ls = Inr (Some m)
           \<and> geometry_position m = center (flat3 vs)
           \<and> triangles vs = map (\<lambda>i. (scaled (p i), scaled (p (i + 1)), scaled (p (i + 2)))) [0..<length ring - 2]
           \<and> position m =
               vdiv (vadd (hd vs) (vadd (vsum (map (\<lambda>(a, b, c). b) (triangles vs))) (last vs)))
                 (real (length ring))
           \<and> position m = vdiv (vsum (map (\<lambda>k. scaled (p k)) [0..<length ring])) (real (length ring))"
proof -
  let ?t = "length ring - 2"
  let ?vs = "concat (map (tri p) [0..<?t])"
  let ?uvs = "concat (map (triUV p) [0..<?t])"
  let ?s = "vsum (map (\<lambda>k. scaled (p k)) [0..<length ring])"
  let ?m = "\<lparr>geometry_position = center (flat3 ?vs), geometry_uv = flat2 ?uvs,
             position = vdiv ?s (real (length ring))\<rparr>"
  have run: "setupVertices ring ls 0 ([], [], (0, 0, 0)) = Inr (?vs, ?uvs, ?s)"
    by (rule setupVertices_run[OF assms(2,1)])
  have pos: "0 < length ring" using assms(1) by linarith
  have ne: "ls \<noteq> []" by (rule present_nonempty[OF assms(2) pos])
  have m: "landmarksToMesh center DRAW_NUMBERS ring ls = Inr (Some ?m)"
    unfolding landmarksToMesh_def run using ne dn by (simp add: Let_def)
  have tv: "tri p = (\<lambda>k. [scaled (p k), scaled (p (k + 1)), scaled (p (k + 2))])"
    by (rule ext) (simp add: tri_def)
  have t0: "0 < ?t" using assms(1) by linarith
  have tr: "triangles ?vs = map (\<lambda>i. (scaled (p i), scaled (p (i + 1)), scaled (p (i + 2)))) [0..<?t]"
    unfolding tv by (rule triangles_concat)
  have h: "hd ?vs = scaled (p 0)" unfolding tv by (rule hd_strip[OF t0])
  have "?t - 1 + 2 = length ring - 1" using assms(1) by linarith
  then have l: "last ?vs = scaled (p (length ring - 1))"
    unfolding tv using last_strip[OF t0, of "\<lambda>k. scaled (p k)" "\<lambda>k. scaled (p (k + 1))" "\<lambda>k. scaled (p (k + 2))"]
    by simp
  have mid: "map (\<lambda>(a, b, c). b) (triangles ?vs) = map (\<lambda>k. scaled (p (k + 1))) [0..<?t]"
    unfolding tr by simp
  have "vadd (hd ?vs) (vadd (vsum (map (\<lambda>(a, b, c). b) (triangles ?vs))) (last ?vs)) = rest p (length ring) 0"
    unfolding h l mid using assms(1) by (simp add: rest_def)
  then have first: "position ?m =
      vdiv (vadd (hd ?vs) (vadd (vsum (map (\<lambda>(a, b, c). b) (triangles ?vs))) (last ?vs))) (real (length ring))"
    using rest_all[OF assms(1), of p] by simp
  show ?thesis
    apply (intro exI[of _ ?m] exI[of _ ?vs] conjI)
    apply (rule m)
    apply simp
    apply (rule tr)
    apply (rule first)
    apply simp
    done
qed

text \<open>
  The library's recentring on a vertex list: a translation moves the bounding box along,
  so after \<^verbatim>\<open>geometry.center()\<close> every vertex has lost the centre of the box and the box is
  centred at the local origin.
\<close>

lemma translate_flat3: "translate t (flat3 vs) = flat3 (map (\<lambda>v. vadd v t) vs)"
proof (induction vs)
  case Nil
  show ?case by (cases t) (simp add: flat3_def)
next
  case (Cons v vs)
  then show ?case by (cases t; cases v) (simp add: flat3_def vadd_def)
qed

lemma box_nil [simp]: "computeBoundingBox [] box = box"
  by (cases box) auto

lemma box_some:
  "\<exists>box'. computeBoundingBox (flat3 vs) (Some box) = Some box'"
proof (induction vs arbitrary: box)
  case Nil
  show ?case by (rule exI[of _ box]) (simp add: flat3_def)
next
  case (Cons v vs)
  obtain x y z where v: "v = (x, y, z)" by (cases v)
  obtain a b c d e f where box: "box = ((a, b, c), (d, e, f))" by (metis prod_cases3)
  have "flat3 (v # vs) = x # y # z # flat3 vs" by (simp add: flat3_def v)
  then show ?case using Cons.IH by (simp add: box)
qed

lemma box_shift:
  "computeBoundingBox (flat3 (map (\<lambda>v. vadd v t) vs)) (Some (shiftBox t box))
     = map_option (shiftBox t) (computeBoundingBox (flat3 vs) (Some box))"
proof (induction vs arbitrary: box)
  case Nil
  show ?case by (simp add: flat3_def)
next
  case (Cons v vs)
  obtain x y z where v: "v = (x, y, z)" by (cases v)
  obtain tx ty tz where t: "t = (tx, ty, tz)" by (cases t)
  obtain a b c d e f where box: "box = ((a, b, c), (d, e, f))" by (metis prod_cases3)
  have f1: "flat3 (v # vs) = x # y # z # flat3 vs" by (simp add: flat3_def v)
  have f2: "flat3 (map (\<lambda>v. vadd v t) (v # vs)) = (x + tx) # (y + ty) # (z + tz) # flat3 (map (\<lambda>v. vadd v t) vs)"
    by (simp add: flat3_def v t vadd_def)
  have s: "Some ((min (a + tx) (x + tx), min (b + ty) (y + ty), min (c + tz) (z + tz)),
                 (max (d + tx) (x + tx), max (e + ty) (y + ty), max (f + tz) (z + tz)))
           = Some (shiftBox t ((min a x, min b y, min c z), (max d x, max e y, max f z)))"
    by (simp add: shiftBox_def vadd_def t min_add_distrib_left max_add_distrib_left)
  show ?case
    unfolding f1 f2 using Cons.IH[of "((min a x, min b y, min c z), (max d x, max e y, max f z))"] s
    by (simp add: box shiftBox_def vadd_def t)
qed

lemma box_shift_None:
  "computeBoundingBox (flat3 (map (\<lambda>v. vadd v t) vs)) None
     = map_option (shiftBox t) (computeBoundingBox (flat3 vs) None)"
proof (cases vs)
  case Nil
  then show ?thesis by (simp add: flat3_def)
next
  case (Cons v vs')
  obtain x y z where v: "v = (x, y, z)" by (cases v)
  obtain tx ty tz where t: "t = (tx, ty, tz)" by (cases t)
  have f1: "flat3 (v # vs') = x # y # z # flat3 vs'" by (simp add: flat3_def v)
  have f2: "flat3 (map (\<lambda>v. vadd v t) (v # vs')) = (x + tx) # (y + ty) # (z + tz) # flat3 (map (\<lambda>v. vadd v t) vs')"
    by (simp add: flat3_def v t vadd_def)
  have "((x + tx, y + ty, z + tz), (x + tx, y + ty, z + tz)) = shiftBox t ((x, y, z), (x, y, z))"
    by (simp add: shiftBox_def vadd_def t)
  then show ?thesis
    unfolding Cons f1 f2 using box_shift[of t vs' "((x, y, z), (x, y, z))"] by simp
qed

lemma box_nonempty:
  "vs \<noteq> [] \<Longrightarrow> \<exists>box. computeBoundingBox (flat3 vs) None = Some box"
proof (cases vs)
  case Nil
  assume "vs \<noteq> []" with Nil show ?thesis by simp
next
  case (Cons v vs')
  obtain x y z where v: "v = (x, y, z)" by (cases v)
  have f1: "flat3 (v # vs') = x # y # z # flat3 vs'" by (simp add: flat3_def v)
  show ?thesis unfolding Cons f1 using box_some[of vs' "((x, y, z), (x, y, z))"] by simp
qed

lemma geometryCenter_flat3:
  assumes "computeBoundingBox (flat3 vs) None = Some box" and "getCenter (Some box) = (cx, cy, cz)"
  shows "geometryCenter (flat3 vs) = flat3 (map (\<lambda>v. vadd v (- cx, - cy, - cz)) vs)"
    and "getCenter (computeBoundingBox (geometryCenter (flat3 vs)) None) = (0, 0, 0)"
proof -
  show g: "geometryCenter (flat3 vs) = flat3 (map (\<lambda>v. vadd v (- cx, - cy, - cz)) vs)"
    by (simp add: geometryCenter_def assms translate_flat3)
  obtain a b c d e f where box: "box = ((a, b, c), (d, e, f))" by (metis prod_cases3)
  have c: "cx = (a + d) * 0.5" "cy = (b + e) * 0.5" "cz = (c + f) * 0.5"
    using assms(2) by (simp_all add: getCenter_def box)
  show "getCenter (computeBoundingBox (geometryCenter (flat3 vs)) None) = (0, 0, 0)"
    unfolding g box_shift_None assms(1)
    by (simp add: getCenter_def box shiftBox_def vadd_def c)
qed

lemma skewExample_present:
  "\<forall>k<length MOUTH_INDICES_SORTED.
     entry skewExample (MOUTH_INDICES_SORTED ! k) = Some (skewPoint (MOUTH_INDICES_SORTED ! k))"
proof -
  have "\<forall>i\<in>set MOUTH_INDICES_SORTED. i < 20"
    by (simp add: MOUTH_INDICES_SORTED_def)
  then have "\<forall>k<length MOUTH_INDICES_SORTED. MOUTH_INDICES_SORTED ! k < 20"
    by (simp add: all_set_conv_all_nth)
  then show ?thesis
    by (simp add: entry_def skewExample_def)
qed

text \<open>
  \<^bold>\<open>Claim C7\<close>, as amended. After assembly \<^verbatim>\<open>geometry.center()\<close> moves the vertices so that
  the centre of their bounding box is the local origin: every vertex loses the centre
  \<open>(cx, cy, cz)\<close> of the box of the emitted vertices. The position of the mesh in the parent
  scene is the average point: the sum of the first vertex, the middle vertex of every
  triangle and the last vertex, divided by the length of the ring, which is the mean of the
  ring's vertex positions, each ring point counted once.
\<close>

theorem recentred_on_box_placed_at_mean:
  assumes "3 \<le> length ring" and "\<forall>k<length ring. entry ls (ring ! k) = Some (p k)"
    and dn: "DRAW_NUMBERS \<longrightarrow> None \<notin> set ls"
  shows "\<exists>m vs box cx cy cz.
           landmarksToMesh geometryCenter DRAW_NUMBERS ring ls = Inr (Some m)
           \<and> triangles vs = map (\<lambda>i. (scaled (p i), scaled (p (i + 1)), scaled (p (i + 2)))) [0..<length ring - 2]
           \<and> computeBoundingBox (flat3 vs) None = Some box
           \<and> getCenter (Some box) = (cx, cy, cz)
           \<and> geometry_position m = flat3 (map (\<lambda>v. vadd v (- cx, - cy, - cz)) vs)
           \<and> getCenter (computeBoundingBox (geometry_position m) None) = (0, 0, 0)
           \<and> position m =
               vdiv (vadd (hd vs) (vadd (vsum (map (\<lambda>(a, b, c). b) (triangles vs))) (last vs)))
                 (real (length ring))
           \<and> position m = vdiv (vsum (map (\<lambda>k. scaled (p k)) [0..<length ring])) (real (length ring))"
proof -
  from placement_mean [OF assms, where center = geometryCenter]
  obtain m vs where r:
    "landmarksToMesh geometryCenter DRAW_NUMBERS ring ls = Inr (Some m)"
    "geometry_position m = geometryCenter (flat3 vs)"
    "triangles vs = map (\<lambda>i. (scaled (p i), scaled (p (i + 1)), scaled (p (i + 2)))) [0..<length ring - 2]"
    "position m =
       vdiv (vadd (hd vs) (vadd (vsum (map (\<lambda>(a, b, c). b) (triangles vs))) (last vs)))
         (real (length ring))"
    "position m = vdiv (vsum (map (\<lambda>k. scaled (p k)) [0..<length ring])) (real (length ring))"
    by blast
  have "0 < length ring - 2" using assms(1) by linarith
  then have "triangles vs \<noteq> []" unfolding r(3) by simp
  then have "vs \<noteq> []" by auto
  then obtain box where box: "computeBoundingBox (flat3 vs) None = Some box"
    using box_nonempty by blast
  obtain cx cy cz where c: "getCenter (Some box) = (cx, cy, cz)" by (metis prod_cases3)
  note g = geometryCenter_flat3 [OF box c]
  have gp: "geometry_position m = flat3 (map (\<lambda>v. vadd v (- cx, - cy, - cz)) vs)"
    using r(2) g(1) by simp
  have gc: "getCenter (computeBoundingBox (geometry_position m) None) = (0, 0, 0)"
    using r(2) g(2) by simp
  from r(1) r(3) box c gp gc r(4) r(5) show ?thesis by blast
qed

text \<open>
  The ring of the source and the twenty example landmarks: the mesh is placed at the mean
  \<open>(19/20, 19/40, -19/100)\<close>, and the box of its geometry is centred at the local origin.
\<close>

theorem recentred_on_box_placed_at_mean_witness:
  "\<exists>m. landmarksToMesh geometryCenter True MOUTH_INDICES_SORTED mouthExample = Inr (Some m)
     \<and> getCenter (computeBoundingBox (geometry_position m) None) = (0, 0, 0)
     \<and> position m = (19 / 20, 19 / 40, - 19 / 100)"
proof -
  have n3: "3 \<le> length MOUTH_INDICES_SORTED" by (simp add: ring_len)
  have s: "vdiv (vsum (map (\<lambda>k. scaled (mouthPoint (MOUTH_INDICES_SORTED ! k))) [0..<length MOUTH_INDICES_SORTED]))
             (real (length MOUTH_INDICES_SORTED)) = (19 / 20, 19 / 40, - 19 / 100)"
    by (simp add: upt_conv_Cons MOUTH_INDICES_SORTED_def mouthPoint_def scaled_def vadd_def vdiv_def)
  from recentred_on_box_placed_at_mean [OF n3 mouthExample_present mouthExample_all, where DRAW_NUMBERS = True]
  obtain m where r:
    "landmarksToMesh geometryCenter True MOUTH_INDICES_SORTED mouthExample = Inr (Some m)"
    "getCenter (computeBoundingBox (geometry_position m) None) = (0, 0, 0)"
    "position m = vdiv (vsum (map (\<lambda>k. scaled (mouthPoint (MOUTH_INDICES_SORTED ! k))) [0..<length MOUTH_INDICES_SORTED]))
             (real (length MOUTH_INDICES_SORTED))"
    by blast
  show ?thesis
    apply (intro exI[of _ m] conjI)
    apply (rule r(1))
    apply (rule r(2))
    using r(3) s apply simp
    done
qed

text \<open>
  Claim C7 as written fails where it says that the local origin is the centroid. With the
  landmark of index 0 at \<open>(1, 0, 0)\<close> and the other nineteen at the origin, the mesh is
  placed at the mean \<open>(1/10, 0, 0)\<close>, but the box of the vertices runs from \<open>0\<close> to \<open>2\<close>
  in \<open>x\<close> and the first vertex, emitted at the origin, ends at \<open>(-1, 0, 0)\<close>; recentring on
  the mean would leave it at \<open>(-1/10, 0, 0)\<close>.
\<close>

theorem box_centre_is_not_centroid:
  "(case setupVertices MOUTH_INDICES_SORTED skewExample 0 ([], [], (0, 0, 0)) of
      Inr (vertices, uvs, sum3) \<Rightarrow>
        (case landmarksToMesh geometryCenter False MOUTH_INDICES_SORTED skewExample of
           Inr (Some m) \<Rightarrow>
             take 3 (flat3 vertices) = [0, 0, 0]
             \<and> position m = (1 / 10, 0, 0)
             \<and> take 3 (geometry_position m) = [- 1, 0, 0]
             \<and> take 3 (spec_recentre (position m) (flat3 vertices)) = [- (1 / 10), 0, 0]
         | _ \<Rightarrow> False)
    | Inl e \<Rightarrow> False)"
proof -
  have n3: "3 \<le> length MOUTH_INDICES_SORTED" by (simp add: ring_len)
  let ?vs = "concat (map (tri (\<lambda>k. skewPoint (MOUTH_INDICES_SORTED ! k))) [0..<length MOUTH_INDICES_SORTED - 2])"
  have run: "setupVertices MOUTH_INDICES_SORTED skewExample 0 ([], [], (0, 0, 0)) =
      Inr (?vs, concat (map (triUV (\<lambda>k. skewPoint (MOUTH_INDICES_SORTED ! k))) [0..<length MOUTH_INDICES_SORTED - 2]),
           vsum (map (\<lambda>k. scaled (skewPoint (MOUTH_INDICES_SORTED ! k))) [0..<length MOUTH_INDICES_SORTED]))"
    by (rule setupVertices_run [OF skewExample_present n3])
  have ne: "skewExample \<noteq> []" by (simp add: skewExample_def upt_conv_Cons)
  have s: "vdiv (vsum (map (\<lambda>k. scaled (skewPoint (MOUTH_INDICES_SORTED ! k))) [0..<length MOUTH_INDICES_SORTED]))
             (real (length MOUTH_INDICES_SORTED)) = (1 / 10, 0, 0)"
    by (simp add: upt_conv_Cons MOUTH_INDICES_SORTED_def skewPoint_def scaled_def vadd_def vdiv_def)
  have vs: "?vs = (0, 0, 0) # tl ?vs"
    by (simp add: upt_conv_Cons MOUTH_INDICES_SORTED_def skewPoint_def scaled_def tri_def)
  have box: "computeBoundingBox (flat3 ?vs) None = Some ((0, 0, 0), (2, 0, 0))"
    by (simp add: upt_conv_Cons MOUTH_INDICES_SORTED_def skewPoint_def scaled_def tri_def flat3_def)
  have c: "getCenter (Some ((0, 0, 0), (2, 0, 0))) = (1, 0, 0)"
    by (simp add: getCenter_def)
  have g: "geometryCenter (flat3 ?vs) = flat3 (map (\<lambda>v. vadd v (- 1, - 0, - 0)) ?vs)"
    by (rule geometryCenter_flat3(1) [OF box c])
  have t1: "take 3 (flat3 ?vs) = [0, 0, 0]"
    by (subst vs) (simp add: flat3_def)
  have t2: "take 3 (geometryCenter (flat3 ?vs)) = [- 1, 0, 0]"
    unfolding g by (subst vs) (simp add: flat3_def vadd_def)
  have t3: "take 3 (spec_recentre (1 / 10, 0, 0) (flat3 ?vs)) = [- (1 / 10), 0, 0]"
    by (subst vs) (simp add: spec_recentre_def flat3_def)
  show ?thesis
    unfolding landmarksToMesh_def run using ne s t1 t2 t3
    by (simp add: Let_def)
qed

text \<open>
  \<^bold>\<open>Claim C4\<close>, as amended. \<^verbatim>\<open>landmarksToMesh\<close> returns no mesh without failing exactly
  when the landmark list is empty. For a non-empty list and a ring of at least three
  points it throws a TypeError exactly when the landmark of some ring position is missing
  (or, with the labels switched on, any entry of the list is), and returns a mesh
  otherwise.
\<close>

theorem no_mesh_only_when_empty:
  "(landmarksToMesh center DRAW_NUMBERS ring ls = Inr None \<longleftrightarrow> ls = [])
   \<and> (3 \<le> length ring \<longrightarrow> ls \<noteq> [] \<longrightarrow>
        (landmarksToMesh center DRAW_NUMBERS ring ls = Inl TypeError
           \<longleftrightarrow> (\<exists>k<length ring. entry ls (ring ! k) = None) \<or> (DRAW_NUMBERS \<and> None \<in> set ls)))"
proof (intro conjI impI)
  show "landmarksToMesh center DRAW_NUMBERS ring ls = Inr None \<longleftrightarrow> ls = []"
    by (simp add: landmarksToMesh_def Let_def split: sum.splits prod.splits)
next
  assume n3: "3 \<le> length ring" and ne: "ls \<noteq> []"
  show "landmarksToMesh center DRAW_NUMBERS ring ls = Inl TypeError
          \<longleftrightarrow> (\<exists>k<length ring. entry ls (ring ! k) = None) \<or> (DRAW_NUMBERS \<and> None \<in> set ls)"
  proof (cases "\<exists>k<length ring. entry ls (ring ! k) = None")
    case True
    then obtain k where k: "k < length ring" "entry ls (ring ! k) = None" by blast
    have "0 + 3 \<le> length ring" using n3 by simp
    from setupVertices_missing[OF this le0 k] ne
    have "landmarksToMesh center DRAW_NUMBERS ring ls = Inl TypeError"
      by (simp add: landmarksToMesh_def)
    with True show ?thesis by simp
  next
    case False
    then have "\<forall>k<length ring. entry ls (ring ! k) = Some (the (entry ls (ring ! k)))" by auto
    from setupVertices_run[OF this n3] ne False show ?thesis
      by (simp add: landmarksToMesh_def Let_def)
  qed
qed

theorem no_mesh_only_when_empty_witness:
  "landmarksToMesh id False MOUTH_INDICES_SORTED [] = Inr None
   \<and> landmarksToMesh id False MOUTH_INDICES_SORTED mouthExample \<noteq> Inr None
   \<and> landmarksToMesh id False MOUTH_INDICES_SORTED [Some (mouthPoint 0)] = Inl TypeError"
proof -
  have n3: "3 \<le> length MOUTH_INDICES_SORTED" by (simp add: ring_len)
  have a: "landmarksToMesh id False MOUTH_INDICES_SORTED [] = Inr None"
    using no_mesh_only_when_empty [of id False MOUTH_INDICES_SORTED "[]"] by simp
  have "mouthExample \<noteq> []" by (simp add: mouthExample_def upt_conv_Cons)
  then have b: "landmarksToMesh id False MOUTH_INDICES_SORTED mouthExample \<noteq> Inr None"
    using no_mesh_only_when_empty [of id False MOUTH_INDICES_SORTED mouthExample] by simp
  have "(0::nat) < length MOUTH_INDICES_SORTED"
    and "entry [Some (mouthPoint 0)] (MOUTH_INDICES_SORTED ! 0) = None"
    by (simp_all add: MOUTH_INDICES_SORTED_def entry_def)
  then have "\<exists>k<length MOUTH_INDICES_SORTED. entry [Some (mouthPoint 0)] (MOUTH_INDICES_SORTED ! k) = None"
    by blast
  then have c: "landmarksToMesh id False MOUTH_INDICES_SORTED [Some (mouthPoint 0)] = Inl TypeError"
    using no_mesh_only_when_empty [of id False MOUTH_INDICES_SORTED "[Some (mouthPoint 0)]"] n3 by simp
  show ?thesis using a b c by simp
qed

text \<open>
  Claim C4 as written fails: a list of two landmarks has fewer than three points, and
  \<^verbatim>\<open>landmarksToMesh\<close> throws on it, the first ring index being 15.
\<close>

theorem short_list_throws:
  "length [Some (mouthPoint 0), Some (mouthPoint 1)] < 3
   \<and> landmarksToMesh id False MOUTH_INDICES_SORTED [Some (mouthPoint 0), Some (mouthPoint 1)] = Inl TypeError"
  unfolding landmarksToMesh_def
  apply (subst setupVertices.simps)
  apply (simp add: MOUTH_INDICES_SORTED_def entry_def)
  done

section \<open>The surface deformer: proofs\<close>


lemma deform_zero: "deform 0 ox vs = vs"
  by (induction "0::real" ox vs rule: deform.induct) simp_all




section \<open>The transform retargeter: proofs\<close>

text \<open>
  \<^verbatim>\<open>m.scale(v)\<close> is the product of \<open>m\<close> with the scaling matrix, on the right.
\<close>

lemma scale_multiply: "scale m (sx, sy, sz) = multiply m (makeScale sx sy sz)"
  by (cases m) (simp add: makeScale_def)

lemma faceExample_index: "k < 478 \<Longrightarrow> index faceExample k = Some (facePoint k)"
  by (simp add: index_def faceExample_def)

text \<open>
  \<^bold>\<open>Claim C2.\<close> With a transformation matrix \<open>tm\<close> present (the sixteen numbers of its
  data), the model loaded and the landmarks the code reads present (the pin vertex and the
  indices 1, 234, 454, 10 and 152), the pin landmark goes to normalized device coordinates
  \<open>(2x - 1, 1 - 2y, z)\<close>, these are unprojected to \<open>(wx, wy, wz)\<close>, and the matrix of the
  object becomes \<open>tm \<times> translate(wx, wy, wz) \<times> translate(displacement) \<times> scale(5)\<close>, with
  \<^verbatim>\<open>matrixAutoUpdate\<close> switched off.
\<close>

theorem pose_composition:
  assumes "facialTransformationMatrixes res = Some (tm # tms)" and "length tm = 16"
    and "gltf obj = Some g"
    and "index (faceLandmarks res) 0 = Some face"
    and "index face (vertexToPin obj) = Some vertex" and "index face 1 = Some center"
    and "index face 234 = Some l234" and "index face 454 = Some l454"
    and "index face 10 = Some l10" and "index face 152 = Some l152"
    and "unproject (2 * lm_x vertex - 1, 1 - 2 * lm_y vertex, lm_z vertex) = (wx, wy, wz)"
    and "displacement vertex center (faceDimensions l234 l454 l10 l152) = (dx, dy, dz)"
  shows "detectFaceLandmarks unproject (Some res) obj =
           (obj\<lparr>gltf := Some (g\<lparr>visible := True, matrixAutoUpdate := False,
                                 matrix := multiply (multiply (multiply (fromArray tm)
                                             (makeTranslation wx wy wz)) (makeTranslation dx dy dz))
                                             (makeScale 5 5 5)\<rparr>)\<rparr>, None)"
proof -
  have nd: "ndc vertex = (2 * lm_x vertex - 1, 1 - 2 * lm_y vertex, lm_z vertex)"
    by (simp add: ndc_def)
  have pm: "poseMatrix unproject (faceLandmarks res) (vertexToPin obj) tm =
              Some (multiply (multiply (fromArray tm) (makeTranslation wx wy wz)) (makeTranslation dx dy dz))"
    using assms(4-12) by (simp add: poseMatrix_def nd)
  have ne: "faceLandmarks res \<noteq> []" using assms(4) by (auto simp: index_def)
  show ?thesis
    using assms(1,3) ne
    by (simp add: detectFaceLandmarks_def pm applyMatrix_def Let_def scale_multiply)
qed

theorem pose_composition_witness:
  "detectFaceLandmarks id
     (Some \<lparr>faceLandmarks = [faceExample],
            facialTransformationMatrixes = Some [[1, 0, 0, 0, 0, 1, 0, 0, 0, 0, 1, 0, 0, 0, 0, 1]]\<rparr>)
     objectExample
   = (\<lparr>gltf = Some \<lparr>visible = True, matrixAutoUpdate = False,
                     matrix = Matrix4 5 0 0 0  0 5 0 0  0 0 5 0  (- 0.2672) 0.942075 (- 0.012085) 1\<rparr>,
       vertexToPin = 10\<rparr>, None)"
proof -
  let ?res = "\<lparr>faceLandmarks = [faceExample],
            facialTransformationMatrixes = Some [[1, 0, 0, 0, 0, 1, 0, 0, 0, 0, 1, 0, 0, 0, 0, 1]]\<rparr>"
  have a: "facialTransformationMatrixes ?res = Some ([1, 0, 0, 0, 0, 1, 0, 0, 0, 0, 1, 0, 0, 0, 0, 1] # [])"
    by simp
  have b: "length [1, 0, 0, 0, 0, 1, 0, 0, 0, 0, 1, 0, 0, 0, 0, 1 :: real] = 16" by simp
  have c: "gltf objectExample = Some \<lparr>visible = False, matrixAutoUpdate = True, matrix = identity\<rparr>"
    by (simp add: objectExample_def)
  have d: "index (faceLandmarks ?res) 0 = Some faceExample" by (simp add: index_def)
  have e: "index faceExample (vertexToPin objectExample) = Some (facePoint 10)"
    by (simp add: objectExample_def faceExample_index)
  have u: "id (2 * lm_x (facePoint 10) - 1, 1 - 2 * lm_y (facePoint 10), lm_z (facePoint 10))
             = (- 0.98, 0.99, - 0.0025)"
    by (simp add: facePoint_def)
  have v: "displacement (facePoint 10) (facePoint 1)
             (faceDimensions (facePoint 234) (facePoint 454) (facePoint 10) (facePoint 152))
             = (0.7128, - 0.047925, - 0.009585)"
    by (simp add: facePoint_def displacement_def faceDimensions_def)
  have f: "index faceExample 1 = Some (facePoint 1)" "index faceExample 234 = Some (facePoint 234)"
    "index faceExample 454 = Some (facePoint 454)" "index faceExample 10 = Some (facePoint 10)"
    "index faceExample 152 = Some (facePoint 152)"
    by (simp_all add: faceExample_index)
  show ?thesis
    using pose_composition [where unproject = id and res = ?res and obj = objectExample
        and face = faceExample and vertex = "facePoint 10" and center = "facePoint 1"
        and ?l234.0 = "facePoint 234" and ?l454.0 = "facePoint 454" and ?l10.0 = "facePoint 10"
        and ?l152.0 = "facePoint 152", OF a b c d e f u v]
    by (simp add: objectExample_def fromArray_def makeTranslation_def makeScale_def)
qed

text \<open>
  \<^bold>\<open>Claim C8\<close>, as amended. In every frame in which the detector runs on a loaded model,
  the object is visible exactly when the frame has a face's landmarks; with no landmarks
  it is invisible and its matrix is left as it was; with no transformation matrix its
  matrix is left as it was and nothing is thrown, and its visibility is still decided by
  the landmarks alone.
\<close>

theorem visibility_follows_landmarks:
  assumes "gltf obj = Some g"
  shows "\<exists>g'. gltf (fst (detectFaceLandmarks unproject (Some res) obj)) = Some g'
           \<and> (visible g' \<longleftrightarrow> faceLandmarks res \<noteq> [])
           \<and> (faceLandmarks res = [] \<longrightarrow>
                matrix g' = matrix g \<and> matrixAutoUpdate g' = matrixAutoUpdate g)
           \<and> (facialTransformationMatrixes res = None \<or> facialTransformationMatrixes res = Some [] \<longrightarrow>
                matrix g' = matrix g \<and> matrixAutoUpdate g' = matrixAutoUpdate g
                \<and> snd (detectFaceLandmarks unproject (Some res) obj) = None)"
proof (cases "facialTransformationMatrixes res")
  case None
  then show ?thesis using assms by (simp add: detectFaceLandmarks_def Let_def)
next
  case (Some tms)
  show ?thesis
  proof (cases tms)
    case Nil
    then show ?thesis using assms Some by (simp add: detectFaceLandmarks_def Let_def)
  next
    case (Cons tm tms')
    show ?thesis
    proof (cases "poseMatrix unproject (faceLandmarks res) (vertexToPin obj) tm")
      case None
      then show ?thesis using assms Some Cons by (simp add: detectFaceLandmarks_def Let_def)
    next
      case (Some m)
      then have "faceLandmarks res \<noteq> []"
        by (auto simp: poseMatrix_def index_def split: if_splits)
      then show ?thesis
        using assms \<open>facialTransformationMatrixes res = Some tms\<close> Cons Some
        by (simp add: detectFaceLandmarks_def Let_def applyMatrix_def)
    qed
  qed
qed

theorem visibility_follows_landmarks_witness:
  "map_option visible (gltf (fst (detectFaceLandmarks id
     (Some \<lparr>faceLandmarks = [], facialTransformationMatrixes = Some []\<rparr>) objectExample)))
   = Some False
   \<and> map_option matrix (gltf (fst (detectFaceLandmarks id
     (Some \<lparr>faceLandmarks = [], facialTransformationMatrixes = Some []\<rparr>) objectExample)))
   = Some identity"
proof -
  have c: "gltf objectExample = Some \<lparr>visible = False, matrixAutoUpdate = True, matrix = identity\<rparr>"
    by (simp add: objectExample_def)
  from visibility_follows_landmarks [OF c, of id "\<lparr>faceLandmarks = [], facialTransformationMatrixes = Some []\<rparr>"]
  show ?thesis by auto
qed

text \<open>
  Claim C8 as written fails where it says that the object is hidden when the
  transformation matrix is absent: with landmarks and no matrix the object is visible.
\<close>

theorem visible_without_matrix:
  "map_option visible (gltf (fst (detectFaceLandmarks id
     (Some \<lparr>faceLandmarks = [faceExample], facialTransformationMatrixes = None\<rparr>) objectExample)))
   = Some True"
  by (simp add: detectFaceLandmarks_def objectExample_def Let_def)

section \<open>The hit tester and the gesture debouncer: proofs\<close>

lemma minMax_ordered:
  "minX \<le> maxX \<Longrightarrow> minY \<le> maxY \<Longrightarrow> minMax ls (minX, maxX, minY, maxY) = (a, b, c, d) \<Longrightarrow> a \<le> b \<and> c \<le> d"
proof (induction ls arbitrary: minX maxX minY maxY)
  case Nil
  then show ?case by simp
next
  case (Cons l ls)
  let ?a = "if lm_x l < minX then lm_x l else minX" and ?b = "if lm_x l > maxX then lm_x l else maxX"
  let ?c = "if lm_y l < minY then lm_y l else minY" and ?d = "if lm_y l > maxY then lm_y l else maxY"
  have "?a \<le> ?b" "?c \<le> ?d" using Cons.prems(1,2) by auto
  moreover have "minMax ls (?a, ?b, ?c, ?d) = (a, b, c, d)" using Cons.prems(3) by simp
  ultimately show ?case by (rule Cons.IH)
qed

lemma minMax_start:
  assumes "ls \<noteq> []" and "minMax ls (1, 0, 1, 0) = (a, b, c, d)"
  shows "a \<le> b \<and> c \<le> d"
proof -
  obtain l ls' where ls: "ls = l # ls'" using assms(1) by (cases ls) auto
  let ?a = "if lm_x l < 1 then lm_x l else 1" and ?b = "if lm_x l > 0 then lm_x l else 0"
  let ?c = "if lm_y l < 1 then lm_y l else 1" and ?d = "if lm_y l > 0 then lm_y l else 0"
  have "?a \<le> ?b" "?c \<le> ?d" by auto
  moreover have "minMax ls' (?a, ?b, ?c, ?d) = (a, b, c, d)" using assms(2) ls by simp
  ultimately show ?thesis by (rule minMax_ordered)
qed

text \<open>
  The box of a hand with at least one landmark has a width and a height that are not
  negative.
\<close>

lemma boundingBox_nonneg:
  assumes "ls \<noteq> []" and "0 \<le> cw" and "0 \<le> ch"
  shows "0 \<le> width (boundingBox ls cw ch) \<and> 0 \<le> height (boundingBox ls cw ch)"
proof -
  obtain a b c d where m: "minMax ls (1, 0, 1, 0) = (a, b, c, d)" by (metis prod_cases4)
  from minMax_start[OF assms(1) m] assms(2,3) show ?thesis
    by (simp add: boundingBox_def m)
qed

text \<open>
  \<^bold>\<open>Claim C9.\<close> \<^verbatim>\<open>Target.hit\<close> holds exactly when the target's position is within the
  box, the four bounds included; so a target at the corner \<open>(originX, originY)\<close> of a box
  of non-negative width and height is hit, and such is every box that \<^verbatim>\<open>predictWebcam\<close>
  computes from a hand with landmarks.
\<close>

theorem hit_inclusive:
  "(hit t box \<longleftrightarrow>
      originX box \<le> target_x t \<and> target_x t \<le> originX box + width box
      \<and> originY box \<le> target_y t \<and> target_y t \<le> originY box + height box)
   \<and> (0 \<le> width box \<and> 0 \<le> height box \<longrightarrow>
        hit (t\<lparr>target_x := originX box, target_y := originY box\<rparr>) box)
   \<and> (ls \<noteq> [] \<and> 0 \<le> cw \<and> 0 \<le> ch \<longrightarrow>
        hit (t\<lparr>target_x := originX (boundingBox ls cw ch), target_y := originY (boundingBox ls cw ch)\<rparr>)
          (boundingBox ls cw ch))"
  using boundingBox_nonneg[of ls cw ch] by (auto simp: hit_def)

text \<open>
  A box 30 wide and 40 high at \<open>(10, 20)\<close>: the target at its corner is hit, the one at
  the opposite corner is hit, and one a pixel further to the right is not. The box of the
  first two example landmarks on a canvas of 640 by 480 has its corner hit as well.
\<close>

theorem hit_inclusive_witness:
  "hit (\<lparr>target_x = 0, target_y = 0, radius = 5\<rparr>\<lparr>target_x := 10, target_y := 20\<rparr>)
       \<lparr>originX = 10, originY = 20, width = 30, height = 40, angle = 0\<rparr>
   \<and> hit \<lparr>target_x = 40, target_y = 60, radius = 5\<rparr>
       \<lparr>originX = 10, originY = 20, width = 30, height = 40, angle = 0\<rparr>
   \<and> \<not> hit \<lparr>target_x = 41, target_y = 60, radius = 5\<rparr>
       \<lparr>originX = 10, originY = 20, width = 30, height = 40, angle = 0\<rparr>
   \<and> hit (\<lparr>target_x = 0, target_y = 0, radius = 5\<rparr>
            \<lparr>target_x := originX (boundingBox [facePoint 0, facePoint 1] 640 480),
             target_y := originY (boundingBox [facePoint 0, facePoint 1] 640 480)\<rparr>)
          (boundingBox [facePoint 0, facePoint 1] 640 480)"
proof -
  let ?box = "\<lparr>originX = 10, originY = 20, width = 30, height = 40, angle = 0\<rparr>"
  have nn: "0 \<le> width ?box \<and> 0 \<le> height ?box" by simp
  have ne: "[facePoint 0, facePoint 1] \<noteq> [] \<and> (0::real) \<le> 640 \<and> (0::real) \<le> 480" by simp
  have a: "hit (\<lparr>target_x = 0, target_y = 0, radius = 5\<rparr>\<lparr>target_x := originX ?box, target_y := originY ?box\<rparr>) ?box"
    using hit_inclusive [of "\<lparr>target_x = 0, target_y = 0, radius = 5\<rparr>" ?box "[]" 0 0] nn by blast
  have b: "hit \<lparr>target_x = 40, target_y = 60, radius = 5\<rparr> ?box"
    using hit_inclusive [of "\<lparr>target_x = 40, target_y = 60, radius = 5\<rparr>" ?box "[]" 0 0] by simp
  have c: "\<not> hit \<lparr>target_x = 41, target_y = 60, radius = 5\<rparr> ?box"
    using hit_inclusive [of "\<lparr>target_x = 41, target_y = 60, radius = 5\<rparr>" ?box "[]" 0 0] by simp
  have d: "hit (\<lparr>target_x = 0, target_y = 0, radius = 5\<rparr>
            \<lparr>target_x := originX (boundingBox [facePoint 0, facePoint 1] 640 480),
             target_y := originY (boundingBox [facePoint 0, facePoint 1] 640 480)\<rparr>)
          (boundingBox [facePoint 0, facePoint 1] 640 480)"
    using hit_inclusive [of "\<lparr>target_x = 0, target_y = 0, radius = 5\<rparr>" ?box
        "[facePoint 0, facePoint 1]" 640 480] ne by blast
  from a b c d show ?thesis by simp
qed

text \<open>
  \<^bold>\<open>Claim C5\<close>, as amended. After every hit the new target has radius 5 and, with the
  margin 20, \<open>radius + margin \<le> x\<close> and \<open>radius + margin \<le> y\<close> for every random draw;
  \<open>x \<le> width - radius - margin\<close> holds when the canvas is at least
  \<open>2 * (radius + margin)\<close> wide, and likewise \<open>y\<close> with its height. The hit also adds one
  to the score and sends the new score.
\<close>

theorem replacement_target_margins:
  "(let t = target (fst (onHit cw ch (g, rs)))
    in radius t = 5
       \<and> radius t + 20 \<le> target_x t \<and> radius t + 20 \<le> target_y t
       \<and> (2 * (radius t + 20) \<le> cw \<longrightarrow> target_x t \<le> cw - radius t - 20)
       \<and> (2 * (radius t + 20) \<le> ch \<longrightarrow> target_y t \<le> ch - radius t - 20))
   \<and> score (fst (onHit cw ch (g, rs))) = score g + 1
   \<and> dispatched (fst (onHit cw ch (g, rs))) = dispatched g @ [score g + 1]"
  by (simp add: onHit_def generateNewTarget_def addScore_def Let_def)

text \<open>
  A canvas of 640 by 480 is wide and high enough, whatever the draws.
\<close>

theorem replacement_target_margins_witness:
  "radius (target (fst (onHit 640 480 (gameExample, sconst (9 / 10))))) = 5
   \<and> 25 \<le> target_x (target (fst (onHit 640 480 (gameExample, sconst (9 / 10)))))
   \<and> target_x (target (fst (onHit 640 480 (gameExample, sconst (9 / 10))))) \<le> 615
   \<and> 25 \<le> target_y (target (fst (onHit 640 480 (gameExample, sconst (9 / 10)))))
   \<and> target_y (target (fst (onHit 640 480 (gameExample, sconst (9 / 10))))) \<le> 455
   \<and> score (fst (onHit 640 480 (gameExample, sconst (9 / 10)))) = score gameExample + 1"
  using replacement_target_margins [of 640 480 gameExample "sconst (9 / 10)"]
  by (auto simp: Let_def)

text \<open>
  Claim C5 as written fails on a canvas narrower than \<open>2 * (radius + margin) = 50\<close>:
  at width 40 the new target is at \<open>x = 25\<close>, beyond \<open>40 - 5 - 20 = 15\<close>.
\<close>

theorem narrow_canvas_target:
  "\<not> target_x (target (fst (onHit 40 480 (gameExample, sconst (1 / 2))))) \<le> 40 - 5 - 20"
  by (simp add: onHit_def generateNewTarget_def addScore_def Let_def gameExample_def)







end
